theory Spec2Isabelle
  imports Complex_Main
begin

section \<open>The persona-consistency validator (validator/main.py)\<close>

text \<open>
  The module defines one class, \<open>PersonaConsistency\<close>, with a constructor and one method,
  \<open>validate\<close>. It depends on two libraries that are not part of the repository: the
  sentence encoder (\<open>SentenceTransformer(...).encode\<close>) and \<open>cosine_similarity\<close>. Both are
  parameters of the model, collected in a record \<open>runtime\<close>; they are taken to return a
  value whenever they are called. Everything the module's own code does is written out:
  the type check, the call to the encoder (with a log of the calls made), the look-up of
  the names the method reads, the comparison with the threshold and the two results.
\<close>

subsection \<open>Values\<close>

text \<open>
  A Python float is a finite number, an infinity or NaN. Finite floats are represented by the
  real number they denote, so a statement about every \<open>FVal r\<close> covers every finite float.
\<close>

datatype pyfloat = FVal real | FPosInf | FNegInf | FNaN

text \<open>
  The literal \<open>0.7\<close> denotes the double nearest to seven tenths, \<open>0x1.6666666666666p-1\<close>.
\<close>

definition literal_0_7 :: real where
  "literal_0_7 = 3152519739159347 / 4503599627370496"

text \<open>The operator \<open>>=\<close> on floats: every comparison with NaN is false.\<close>

fun float_ge :: "pyfloat \<Rightarrow> pyfloat \<Rightarrow> bool" where
  "float_ge FNaN _ = False"
| "float_ge _ FNaN = False"
| "float_ge FPosInf _ = True"
| "float_ge _ FNegInf = True"
| "float_ge (FVal a) (FVal b) = (b \<le> a)"
| "float_ge (FVal a) FPosInf = False"
| "float_ge FNegInf _ = False"

text \<open>The values a caller can pass as \<open>value: Any\<close>.\<close>

datatype pyval =
    VNone
  | VBool bool
  | VInt int
  | VFloat pyfloat
  | VStr string
  | VList "pyval list"
  | VDict "(string \<times> pyval) list"

type_synonym metadata = "(string \<times> pyval) list"

text \<open>\<open>isinstance(value, str)\<close>\<close>

fun isinstance_str :: "pyval \<Rightarrow> bool" where
  "isinstance_str (VStr s) = True"
| "isinstance_str _ = False"

fun str_of :: "pyval \<Rightarrow> string" where
  "str_of (VStr s) = s"
| "str_of _ = []"

datatype validation_result = PassResult | FailResult string

datatype error = NameError string

subsection \<open>Formatting a float with \<open>:.2f\<close>\<close>

definition digit :: "nat \<Rightarrow> char" where
  "digit d = ''0123456789'' ! (d mod 10)"

fun dec_digits :: "nat \<Rightarrow> string" where
  "dec_digits n = (if n < 10 then [digit n] else dec_digits (n div 10) @ [digit (n mod 10)])"

declare dec_digits.simps [simp del]

text \<open>Rounding to the nearest integer, a tie going to the even neighbour.\<close>

definition round_half_even :: "real \<Rightarrow> int" where
  "round_half_even x =
     (let f = \<lfloor>x\<rfloor>; d = x - of_int f
      in if d < 1 / 2 then f else if 1 / 2 < d then f + 1 else if even f then f else f + 1)"

definition format_2f :: "pyfloat \<Rightarrow> string" where
  "format_2f x =
     (case x of
        FNaN \<Rightarrow> ''nan''
      | FPosInf \<Rightarrow> ''inf''
      | FNegInf \<Rightarrow> ''-inf''
      | FVal r \<Rightarrow>
          (let n = nat (round_half_even (\<bar>r\<bar> * 100))
           in (if r < 0 then ''-'' else '''') @ dec_digits (n div 100) @ ''.''
              @ [digit (n div 10 mod 10), digit (n mod 10)]))"

subsection \<open>The libraries\<close>

text \<open>
  \<open>'o\<close> is the type of the objects the libraries produce and consume (arrays).
  \<^item> \<open>SentenceTransformer name\<close> is the \<open>encode\<close> function of the model of that name;
  \<^item> \<open>cosine_similarity a b\<close> is the entry \<open>[0][0]\<close> of the similarity matrix of \<open>a\<close> and \<open>b\<close>;
  \<^item> \<open>global_object n\<close> is the object a name of the module's namespace is bound to.
\<close>

record 'o runtime =
  SentenceTransformer :: "string \<Rightarrow> string list \<Rightarrow> 'o"
  cosine_similarity :: "'o \<Rightarrow> 'o \<Rightarrow> pyfloat"
  global_object :: "string \<Rightarrow> 'o"

text \<open>
  A model object: its name and the arguments of the calls of \<open>encode\<close> made on it so far,
  oldest first.
\<close>

record sentence_transformer =
  model_name :: string
  encode_calls :: "string list list"

definition encode ::
  "'o runtime \<Rightarrow> sentence_transformer \<Rightarrow> string list \<Rightarrow> 'o \<times> sentence_transformer" where
  "encode rt m sentences =
     (SentenceTransformer rt (model_name m) sentences,
      m\<lparr>encode_calls := encode_calls m @ [sentences]\<rparr>)"

subsection \<open>Names\<close>

text \<open>
  The names bound at module level: the imports of lines 1 to 12, the class of line 15 and
  the attributes every module has.
\<close>

definition module_globals :: "string list" where
  "module_globals =
     [''re'', ''Any'', ''Callable'', ''Dict'', ''Optional'', ''SentenceTransformer'',
      ''cosine_similarity'', ''FailResult'', ''PassResult'', ''ValidationResult'',
      ''Validator'', ''register_validator'', ''PersonaConsistency'',
      ''__name__'', ''__doc__'', ''__package__'', ''__loader__'', ''__spec__'',
      ''__file__'', ''__cached__'', ''__builtins__'']"

text \<open>The names of the built-in namespace: functions and types, constants, exceptions.\<close>

definition builtin_names :: "string list" where
  "builtin_names =
     [''abs'', ''aiter'', ''all'', ''anext'', ''any'', ''ascii'', ''bin'', ''bool'',
      ''breakpoint'', ''bytearray'', ''bytes'', ''callable'', ''chr'', ''classmethod'',
      ''compile'', ''complex'', ''copyright'', ''credits'', ''delattr'', ''dict'', ''dir'',
      ''divmod'', ''enumerate'', ''eval'', ''exec'', ''exit'', ''filter'', ''float'',
      ''format'', ''frozenset'', ''getattr'', ''globals'', ''hasattr'', ''hash'', ''help'',
      ''hex'', ''id'', ''input'', ''int'', ''isinstance'', ''issubclass'', ''iter'', ''len'',
      ''license'', ''list'', ''locals'', ''map'', ''max'', ''memoryview'', ''min'', ''next'',
      ''object'', ''oct'', ''open'', ''ord'', ''pow'', ''print'', ''property'', ''quit'',
      ''range'', ''repr'', ''reversed'', ''round'', ''set'', ''setattr'', ''slice'',
      ''sorted'', ''staticmethod'', ''str'', ''sum'', ''super'', ''tuple'', ''type'',
      ''vars'', ''zip'', ''__build_class__'', ''__debug__'', ''__import__'',
      ''False'', ''True'', ''None'', ''NotImplemented'', ''Ellipsis'',
      ''ArithmeticError'', ''AssertionError'', ''AttributeError'', ''BaseException'',
      ''BaseExceptionGroup'', ''BlockingIOError'', ''BrokenPipeError'', ''BufferError'',
      ''BytesWarning'', ''ChildProcessError'', ''ConnectionAbortedError'',
      ''ConnectionError'', ''ConnectionRefusedError'', ''ConnectionResetError'',
      ''DeprecationWarning'', ''EOFError'', ''EncodingWarning'', ''EnvironmentError'',
      ''Exception'', ''ExceptionGroup'', ''FileExistsError'', ''FileNotFoundError'',
      ''FloatingPointError'', ''FutureWarning'', ''GeneratorExit'', ''IOError'',
      ''ImportError'', ''ImportWarning'', ''IndentationError'', ''IndexError'',
      ''InterruptedError'', ''IsADirectoryError'', ''KeyError'', ''KeyboardInterrupt'',
      ''LookupError'', ''MemoryError'', ''ModuleNotFoundError'', ''NameError'',
      ''NotADirectoryError'', ''NotImplementedError'', ''OSError'', ''OverflowError'',
      ''PendingDeprecationWarning'', ''PermissionError'', ''ProcessLookupError'',
      ''RecursionError'', ''ReferenceError'', ''ResourceWarning'', ''RuntimeError'',
      ''RuntimeWarning'', ''StopAsyncIteration'', ''StopIteration'', ''SyntaxError'',
      ''SyntaxWarning'', ''SystemError'', ''SystemExit'', ''TabError'', ''TimeoutError'',
      ''TypeError'', ''UnboundLocalError'', ''UnicodeDecodeError'', ''UnicodeEncodeError'',
      ''UnicodeError'', ''UnicodeTranslateError'', ''UnicodeWarning'', ''UserWarning'',
      ''ValueError'', ''Warning'', ''ZeroDivisionError'']"

text \<open>
  Reading a name that is not a local variable of the function: the module's namespace
  first, then the built-in one; a name found in neither raises \<open>NameError\<close>.
\<close>

definition load_global :: "'o runtime \<Rightarrow> string \<Rightarrow> error + 'o" where
  "load_global rt n =
     (if n \<in> set module_globals \<or> n \<in> set builtin_names then Inr (global_object rt n)
      else Inl (NameError n))"

subsection \<open>The class\<close>

text \<open>
  The fields of an instance. \<open>on_fail\<close> is the one the base class keeps (line 37); the
  others are \<open>self._persona_description\<close>, \<open>self._similarity_threshold\<close>, \<open>self._model\<close> and
  \<open>self._persona_embedding\<close> (lines 38 to 41).
\<close>

record ('o, 'c) persona_consistency =
  on_fail :: "'c option"
  self_persona_description :: string
  self_similarity_threshold :: pyfloat
  self_model :: sentence_transformer
  self_persona_embedding :: 'o

text \<open>
  \<open>__init__\<close> (lines 31 to 41). An argument that the caller leaves out is \<open>None\<close> here, and the
  default of the signature is used for it.
\<close>

definition init ::
  "'o runtime \<Rightarrow> string \<Rightarrow> pyfloat option \<Rightarrow> 'c option \<Rightarrow> ('o, 'c) persona_consistency" where
  "init rt persona_description similarity_threshold on_fail_arg =
     (let threshold = (case similarity_threshold of None \<Rightarrow> FVal literal_0_7 | Some t \<Rightarrow> t);
          model = \<lparr>model_name = ''all-MiniLM-L6-v2'', encode_calls = []\<rparr>;
          (embedding, model') = encode rt model [persona_description]
      in \<lparr>on_fail = on_fail_arg,
          self_persona_description = persona_description,
          self_similarity_threshold = threshold,
          self_model = model',
          self_persona_embedding = embedding\<rparr>)"

text \<open>The decision of line 56.\<close>

definition threshold_met :: "pyfloat \<Rightarrow> pyfloat \<Rightarrow> bool" where
  "threshold_met similarity threshold = float_ge similarity threshold"

text \<open>
  \<open>validate\<close> (lines 43 to 61). The result is the value returned or the exception raised,
  with the instance as the call leaves it. Line 54 reads \<open>persona_embedding\<close>, which is not a
  local variable of the method (its locals are \<open>self\<close>, \<open>value\<close>, \<open>metadata\<close>,
  \<open>output_embedding\<close> and \<open>similarity\<close>), so the name is looked up with \<open>load_global\<close>.
\<close>

definition validate ::
  "'o runtime \<Rightarrow> ('o, 'c) persona_consistency \<Rightarrow> pyval \<Rightarrow> metadata
     \<Rightarrow> (error + validation_result) \<times> ('o, 'c) persona_consistency" where
  "validate rt self value metadata =
     (if \<not> isinstance_str value then (Inr (FailResult ''Input must be a string.''), self)
      else
        let (output_embedding, model') = encode rt (self_model self) [str_of value];
            self' = self\<lparr>self_model := model'\<rparr>
        in case load_global rt ''persona_embedding'' of
             Inl e \<Rightarrow> (Inl e, self')
           | Inr persona_embedding \<Rightarrow>
               (let similarity = cosine_similarity rt persona_embedding output_embedding
                in if threshold_met similarity (self_similarity_threshold self')
                   then (Inr PassResult, self')
                   else (Inr (FailResult
                          (''Output does not maintain the expected persona. Similarity score: ''
                           @ format_2f similarity)), self')))"


subsection \<open>A concrete runtime\<close>

text \<open>
  A small runtime on which the model can be evaluated: the encoding of a list of sentences
  is the list itself, and two encodings have similarity 1 when they are equal, 0 otherwise.
\<close>

definition demo_runtime :: "string list runtime" where
  "demo_runtime =
     \<lparr>SentenceTransformer = (\<lambda>name sentences. sentences),
      cosine_similarity = (\<lambda>a b. if a = b then FVal 1 else FVal 0),
      global_object = (\<lambda>n. [n])\<rparr>"

definition demo_checker :: "(string list, unit) persona_consistency" where
  "demo_checker = init demo_runtime ''a cheerful customer support agent'' None None"

section \<open>Properties\<close>

subsection \<open>Auxiliary facts\<close>

lemma literal_0_7_nearest: "\<bar>literal_0_7 - 7 / 10\<bar> \<le> 1 / 2 ^ 54"
  by (simp add: literal_0_7_def)

lemma persona_embedding_unbound:
  "load_global rt ''persona_embedding'' = Inl (NameError ''persona_embedding'')"
  by (simp add: load_global_def module_globals_def builtin_names_def)

lemma validate_str:
  "validate rt self (VStr s) metadata =
     (Inl (NameError ''persona_embedding''),
      self\<lparr>self_model :=
        (self_model self)\<lparr>encode_calls := encode_calls (self_model self) @ [[s]]\<rparr>\<rparr>)"
  by (simp add: validate_def encode_def persona_embedding_unbound)

lemma validate_not_str:
  "\<not> isinstance_str value \<Longrightarrow>
     validate rt self value metadata = (Inr (FailResult ''Input must be a string.''), self)"
  by (simp add: validate_def)

lemma init_fields:
  "init rt P T F =
     \<lparr>on_fail = F, self_persona_description = P,
      self_similarity_threshold = (case T of None \<Rightarrow> FVal literal_0_7 | Some t \<Rightarrow> t),
      self_model = \<lparr>model_name = ''all-MiniLM-L6-v2'', encode_calls = [[P]]\<rparr>,
      self_persona_embedding = SentenceTransformer rt ''all-MiniLM-L6-v2'' [P]\<rparr>"
  by (simp add: init_def encode_def)

text \<open>
  The formatting itself rounds to two decimals: every float strictly between 0.425 and
  0.435, the double written \<open>0.4321\<close> among them, is printed as \<open>0.43\<close>.
\<close>

lemma round_half_even_43:
  assumes "85 / 2 < x" and "x < 87 / 2"
  shows "round_half_even x = 43"
proof -
  have "\<lfloor>x\<rfloor> = 42 \<or> \<lfloor>x\<rfloor> = 43"
    using assms by linarith
  then show ?thesis
  proof
    assume f: "\<lfloor>x\<rfloor> = 42"
    then have "1 / 2 < x - of_int \<lfloor>x\<rfloor>" using assms by simp
    then show ?thesis using f by (simp add: round_half_even_def Let_def)
  next
    assume f: "\<lfloor>x\<rfloor> = 43"
    then have "x - of_int \<lfloor>x\<rfloor> < 1 / 2" using assms by simp
    then show ?thesis using f by (simp add: round_half_even_def Let_def)
  qed
qed

lemma format_2f_rounds:
  assumes "425 / 1000 < r" and "r < 435 / 1000"
  shows "format_2f (FVal r) = ''0.43''"
proof -
  have "0 < r" using assms by simp
  then have "\<bar>r\<bar> * 100 = r * 100" by simp
  moreover have "round_half_even (r * 100) = 43"
    using assms by (intro round_half_even_43) simp_all
  ultimately show ?thesis
    using \<open>0 < r\<close> by (simp add: format_2f_def dec_digits.simps digit_def)
qed


lemma demo_checker_fields:
  "demo_checker =
     \<lparr>on_fail = None, self_persona_description = ''a cheerful customer support agent'',
      self_similarity_threshold = FVal literal_0_7,
      self_model = \<lparr>model_name = ''all-MiniLM-L6-v2'',
                    encode_calls = [[''a cheerful customer support agent'']]\<rparr>,
      self_persona_embedding = [''a cheerful customer support agent'']\<rparr>"
  by (simp add: demo_checker_def init_fields demo_runtime_def)

subsection \<open>Strings: the unbound name\<close>

text \<open>
  C3. For every string candidate, \<open>validate\<close> reads the name \<open>persona_embedding\<close>, which is
  bound neither in the method, nor in the module, nor among the built-ins (the field is
  \<open>self._persona_embedding\<close>), and so the call ends in a \<open>NameError\<close>: it returns neither a
  pass nor a fail result.
\<close>

theorem validate_string_raises_NameError:
  "fst (validate rt self (VStr s) metadata) = Inl (NameError ''persona_embedding'')"
  by (simp add: validate_str)

text \<open>
  C1. The rule "pass if and only if the similarity is at least the threshold" is not what a
  call does. Persona and candidate are both \<open>a\<close> and the threshold is 1: the similarity of
  the two encodings is 1, which meets the threshold exactly, and the call raises
  \<open>NameError\<close> instead of returning \<open>PassResult\<close>.
\<close>

theorem validate_boundary_similarity_raises:
  "threshold_met
     (cosine_similarity demo_runtime
        (self_persona_embedding (init demo_runtime ''a'' (Some (FVal 1)) (None :: unit option)))
        (SentenceTransformer demo_runtime ''all-MiniLM-L6-v2'' [''a'']))
     (self_similarity_threshold (init demo_runtime ''a'' (Some (FVal 1)) (None :: unit option)))
   \<and> fst (validate demo_runtime (init demo_runtime ''a'' (Some (FVal 1)) (None :: unit option))
            (VStr ''a'') [])
       = Inl (NameError ''persona_embedding'')"
  by (simp add: validate_str init_fields demo_runtime_def threshold_met_def)

text \<open>
  C5. A string candidate whose similarity is below the threshold does not get the message
  with the score. The checker of the cheerful agent has threshold 0.7; the candidate
  \<open>Get lost.\<close> has similarity 0 to the persona, and the call raises \<open>NameError\<close> where the
  message ending in \<open>Similarity score: 0.00\<close> is expected.
\<close>

theorem validate_below_threshold_raises:
  "threshold_met
     (cosine_similarity demo_runtime (self_persona_embedding demo_checker)
        (SentenceTransformer demo_runtime ''all-MiniLM-L6-v2'' [''Get lost.'']))
     (self_similarity_threshold demo_checker) = False
   \<and> format_2f
       (cosine_similarity demo_runtime (self_persona_embedding demo_checker)
          (SentenceTransformer demo_runtime ''all-MiniLM-L6-v2'' [''Get lost.''])) = ''0.00''
   \<and> fst (validate demo_runtime demo_checker (VStr ''Get lost.'') [])
       = Inl (NameError ''persona_embedding'')"
  by (simp add: validate_str demo_checker_fields demo_runtime_def threshold_met_def
      literal_0_7_def format_2f_def round_half_even_def dec_digits.simps digit_def)

text \<open>
  C6. A candidate equal to the persona description does not pass. For the checker of the
  cheerful agent (threshold 0.7) and the description itself as candidate, the two
  encodings are equal and their similarity is 1, yet the call raises \<open>NameError\<close>.
\<close>

theorem validate_identical_text_raises:
  "SentenceTransformer demo_runtime ''all-MiniLM-L6-v2'' [self_persona_description demo_checker]
     = self_persona_embedding demo_checker
   \<and> cosine_similarity demo_runtime (self_persona_embedding demo_checker)
       (SentenceTransformer demo_runtime ''all-MiniLM-L6-v2''
          [self_persona_description demo_checker]) = FVal 1
   \<and> float_ge (FVal 1) (self_similarity_threshold demo_checker)
   \<and> fst (validate demo_runtime demo_checker (VStr (self_persona_description demo_checker)) [])
       = Inl (NameError ''persona_embedding'')"
  by (simp add: validate_str demo_checker_fields demo_runtime_def literal_0_7_def)

subsection \<open>Values that are not strings\<close>

text \<open>
  C2. For every candidate that is not a string, \<open>validate\<close> returns the fail result with the
  message \<open>Input must be a string.\<close>; it raises nothing, and it leaves the instance as it
  was, the log of the encoder included: the encoder is not called.
\<close>

theorem validate_non_string_fails:
  "\<not> isinstance_str value \<Longrightarrow>
     validate rt self value metadata = (Inr (FailResult ''Input must be a string.''), self)
     \<and> encode_calls (self_model (snd (validate rt self value metadata)))
         = encode_calls (self_model self)"
  by (simp add: validate_not_str)

theorem validate_non_string_fails_witness:
  "\<not> isinstance_str (VInt 42)
   \<and> validate demo_runtime demo_checker (VInt 42) []
       = (Inr (FailResult ''Input must be a string.''), demo_checker)
   \<and> encode_calls (self_model (snd (validate demo_runtime demo_checker (VInt 42) [])))
       = encode_calls (self_model demo_checker)"
proof -
  have h: "\<not> isinstance_str (VInt 42)" by simp
  show ?thesis
    using h validate_non_string_fails [OF h, of demo_runtime demo_checker "[]"] by simp
qed

subsection \<open>Construction and the calls of the encoder\<close>

text \<open>
  C4, as the code has it. Construction calls the encoder once, on the persona description,
  and keeps the result as the persona embedding, so the log holds one call. A later call of
  \<open>validate\<close> never changes the persona embedding; it adds no call when the candidate is
  not a string, and exactly one call, on the candidate, when it is a string.
\<close>

theorem init_encodes_once_validate_encodes_candidate:
  "self_persona_embedding (init rt P T F) = SentenceTransformer rt ''all-MiniLM-L6-v2'' [P]
   \<and> encode_calls (self_model (init rt P T F)) = [[P]]
   \<and> self_persona_embedding (snd (validate rt self value metadata))
       = self_persona_embedding self
   \<and> encode_calls (self_model (snd (validate rt self value metadata)))
       = encode_calls (self_model self) @ (case value of VStr s \<Rightarrow> [[s]] | _ \<Rightarrow> [])"
  by (cases "value") (simp_all add: init_fields validate_str validate_not_str)

text \<open>
  The count of encoder calls is 1 after construction and 2 after one check of a string, so
  a check does increment it.
\<close>

theorem validate_increments_encode_calls:
  "length (encode_calls (self_model demo_checker)) = 1
   \<and> length (encode_calls (self_model
        (snd (validate demo_runtime demo_checker (VStr ''hello'') [])))) = 2"
  by (simp add: validate_str demo_checker_fields)

text \<open>
  C9. When no threshold is given to the constructor, the threshold of the instance is the
  float written \<open>0.7\<close>, the double within half a unit in the last place of seven tenths.
\<close>

theorem default_similarity_threshold:
  "self_similarity_threshold (init rt P None F) = FVal literal_0_7
   \<and> \<bar>literal_0_7 - 7 / 10\<bar> \<le> 1 / 2 ^ 54"
proof
  show "self_similarity_threshold (init rt P None F) = FVal literal_0_7"
    by (simp add: init_fields)
  show "\<bar>literal_0_7 - 7 / 10\<bar> \<le> 1 / 2 ^ 54"
    by (rule literal_0_7_nearest)
qed




subsection \<open>What a check depends on and what it changes\<close>

text \<open>
  C7. The metadata argument has no effect: for every candidate, two calls that differ only
  in the metadata have the same outcome and leave the same instance.
\<close>

theorem validate_ignores_metadata:
  "validate rt self value m1 = validate rt self value m2"
  by (simp add: validate_def)

text \<open>
  C10. A call of \<open>validate\<close> leaves the persona description, the similarity threshold and
  the persona embedding of the instance as they were, for every candidate and metadata.
\<close>

theorem validate_preserves_checker_state:
  "self_persona_description (snd (validate rt self value metadata))
     = self_persona_description self
   \<and> self_similarity_threshold (snd (validate rt self value metadata))
       = self_similarity_threshold self
   \<and> self_persona_embedding (snd (validate rt self value metadata))
       = self_persona_embedding self"
  by (cases "value") (simp_all add: validate_str validate_not_str)

end
